theory Spec2Isabelle
  imports Complex_Main "HOL-Library.Sublist"
begin

section \<open>AlienPoker: the house-edge auto balancer\<close>

text \<open>
  The development embeds \<^verbatim>\<open>backend/config.py\<close> and \<^verbatim>\<open>backend/auto_balancer.py\<close>.
  Python's \<^verbatim>\<open>float\<close> is idealised as \<^typ>\<open>real\<close>: every value is finite, arithmetic is
  exact, and there is neither rounding nor NaN. Python's \<^verbatim>\<open>int\<close> is \<^typ>\<open>int\<close>.
\<close>

subsection \<open>config.py\<close>

text \<open>The dataclass \<^verbatim>\<open>Config\<close>; \<^verbatim>\<open>tube_initial\<close> is a dict from hand names to floats.\<close>

record Config =
  players :: int
  ante :: int
  rounds :: int
  target_edge :: real
  bust_multiplier :: real
  tube_initial :: "string \<rightharpoonup> real"

text \<open>\<^verbatim>\<open>Config()\<close>: every field at its default.\<close>

definition default_Config :: Config where
  "default_Config =
     \<lparr>players = 4, ante = 5, rounds = 20000,
      target_edge = 0.05, bust_multiplier = 1.0,
      tube_initial = [''ST'' \<mapsto> 5.0, ''FL'' \<mapsto> 10.0, ''FH'' \<mapsto> 15.0,
                      ''SF'' \<mapsto> 20.0, ''RF'' \<mapsto> 25.0]\<rparr>"

subsection \<open>The engine, an external collaborator\<close>

text \<open>
  The engine class is not part of the repository's two files; it is a parameter of the
  balancer. \<^verbatim>\<open>engine_class(config)\<close> builds an engine from the configuration it is
  handed, and \<^verbatim>\<open>engine.simulate()\<close> either raises (\<open>Inl\<close>) or returns a result dict
  (\<open>Inr\<close>). A simulation may be stochastic: it reads and advances a hidden world \<open>'w\<close>
  (the random generator, say). The engine reads the configuration and does not write it.
\<close>

type_synonym result = "string \<rightharpoonup> real"

type_synonym ('w, 'e) Engine = "'w \<Rightarrow> ('e + result) \<times> 'w"

subsection \<open>auto_balancer.py\<close>

text \<open>
  An \<^verbatim>\<open>AutoBalancer\<close> object. The field \<open>config\<close> is the one configuration object the
  balancer and its caller share: a write of the caller to that object is an update of
  this field.
\<close>

record ('w, 'e) AutoBalancer =
  engine_class :: "Config \<Rightarrow> ('w, 'e) Engine"
  config :: Config
  min_edge :: real
  max_edge :: real
  target :: real
  learning_rate :: real

text \<open>\<^verbatim>\<open>AutoBalancer.__init__(self, engine_class, config)\<close>.\<close>

definition init :: "(Config \<Rightarrow> ('w, 'e) Engine) \<Rightarrow> Config \<Rightarrow> ('w, 'e) AutoBalancer" where
  "init engine_class' config' =
     \<lparr>engine_class = engine_class',
      config = config',
      min_edge = 0.03,
      max_edge = 0.07,
      target = target_edge config',
      learning_rate = 0.8\<rparr>"

text \<open>
  \<^verbatim>\<open>AutoBalancer.adjust(self, edge)\<close>. The method returns \<^verbatim>\<open>None\<close>, the unit value here,
  together with the object after its in-place update.
\<close>

definition set_bust_multiplier :: "real \<Rightarrow> ('w, 'e) AutoBalancer \<Rightarrow> ('w, 'e) AutoBalancer" where
  "set_bust_multiplier v self = self\<lparr>config := (config self)\<lparr>bust_multiplier := v\<rparr>\<rparr>"

definition adjust :: "('w, 'e) AutoBalancer \<Rightarrow> real \<Rightarrow> unit \<times> ('w, 'e) AutoBalancer" where
  "adjust self edge =
     (let gap = target self - edge;
          self1 = set_bust_multiplier
                    (bust_multiplier (config self) + learning_rate self * gap) self;
          self2 = (if bust_multiplier (config self1) < 0.5
                   then set_bust_multiplier 0.5 self1 else self1);
          self3 = (if bust_multiplier (config self2) > 3.0
                   then set_bust_multiplier 3.0 self2 else self2)
      in ((), self3))"

text \<open>The actuator after a call of \<open>adjust\<close>.\<close>

definition adjusted :: "('w, 'e) AutoBalancer \<Rightarrow> real \<Rightarrow> ('w, 'e) AutoBalancer" where
  "adjusted self edge = snd (adjust self edge)"

definition actuator :: "('w, 'e) AutoBalancer \<Rightarrow> real" where
  "actuator self = bust_multiplier (config self)"

text \<open>Clamping a value into an interval, for stating what \<open>adjust\<close> computes.\<close>

definition clamp :: "real \<Rightarrow> real \<Rightarrow> real \<Rightarrow> real" where
  "clamp lo hi x = max lo (min hi x)"

text \<open>A sequence of \<open>adjust\<close> calls, one per measured statistic, in order.\<close>

fun adjust_all :: "('w, 'e) AutoBalancer \<Rightarrow> real list \<Rightarrow> ('w, 'e) AutoBalancer" where
  "adjust_all self [] = self"
| "adjust_all self (edge # edges) = adjust_all (adjusted self edge) edges"

subsection \<open>The control loop\<close>

text \<open>
  What a call of \<^verbatim>\<open>run\<close> can raise: the engine's own fault, propagated uncaught;
  \<^verbatim>\<open>KeyError\<close> when the result dict has no key \<^verbatim>\<open>"house_edge"\<close>; and
  \<^verbatim>\<open>UnboundLocalError\<close> when the final \<^verbatim>\<open>return result\<close> reads a local that no
  iteration has assigned.
\<close>

datatype 'e error = UnboundLocalError | KeyError | EngineFault 'e

text \<open>
  The observable steps of a run, in program order: a call
  \<^verbatim>\<open>engine_class(self.config).simulate()\<close> with the configuration passed and what came
  back, the two \<^verbatim>\<open>print\<close> lines, and a call \<^verbatim>\<open>self.adjust(edge)\<close>.
\<close>

datatype 'e event =
    Simulate Config "'e + result"
  | Print_iteration int real
  | Print_stabilized
  | Adjust real

record ('w, 'e) outcome =
  returned :: "'e error + result"
  balancer :: "('w, 'e) AutoBalancer"
  world :: 'w
  trace :: "'e event list"

definition emit :: "'e event list \<Rightarrow> ('w, 'e) outcome \<Rightarrow> ('w, 'e) outcome" where
  "emit es out = out\<lparr>trace := es @ trace out\<rparr>"

text \<open>
  The \<^verbatim>\<open>for i in range(max_iterations)\<close> loop of \<^verbatim>\<open>run\<close>, from iteration \<open>i\<close> on, followed
  by the final \<^verbatim>\<open>return result\<close>. The argument \<open>result\<close> is the local variable of that
  name: \<open>None\<close> while it is unbound.
\<close>

function run_loop ::
  "int \<Rightarrow> int \<Rightarrow> result option \<Rightarrow> ('w, 'e) AutoBalancer \<Rightarrow> 'w \<Rightarrow> ('w, 'e) outcome" where
  "run_loop i max_iterations result self w =
     (if i < max_iterations then
        (case engine_class self (config self) w of
           (Inl e, w') \<Rightarrow>
             \<lparr>returned = Inl (EngineFault e), balancer = self, world = w',
              trace = [Simulate (config self) (Inl e)]\<rparr>
         | (Inr result', w') \<Rightarrow>
             (case result' ''house_edge'' of
                None \<Rightarrow>
                  \<lparr>returned = Inl KeyError, balancer = self, world = w',
                   trace = [Simulate (config self) (Inr result')]\<rparr>
              | Some edge \<Rightarrow>
                  if min_edge self \<le> edge \<and> edge \<le> max_edge self then
                    \<lparr>returned = Inr result', balancer = self, world = w',
                     trace = [Simulate (config self) (Inr result'),
                              Print_iteration i edge, Print_stabilized]\<rparr>
                  else
                    emit [Simulate (config self) (Inr result'),
                          Print_iteration i edge, Adjust edge]
                      (run_loop (i + 1) max_iterations (Some result')
                         (snd (adjust self edge)) w')))
      else
        (case result of
           None \<Rightarrow>
             \<lparr>returned = Inl UnboundLocalError, balancer = self, world = w, trace = []\<rparr>
         | Some r \<Rightarrow>
             \<lparr>returned = Inr r, balancer = self, world = w, trace = []\<rparr>))"
  by pat_completeness auto
termination
  by (relation "measure (\<lambda>(i, max_iterations, result, self, w). nat (max_iterations - i))") auto

declare run_loop.simps [simp del]

text \<open>\<^verbatim>\<open>AutoBalancer.run(self, max_iterations=8)\<close>.\<close>

definition run :: "('w, 'e) AutoBalancer \<Rightarrow> int \<Rightarrow> 'w \<Rightarrow> ('w, 'e) outcome" where
  "run self max_iterations w = run_loop 0 max_iterations None self w"

definition run_default :: "('w, 'e) AutoBalancer \<Rightarrow> 'w \<Rightarrow> ('w, 'e) outcome" where
  "run_default self w = run self 8 w"

text \<open>The \<^verbatim>\<open>simulate()\<close> calls of a run, and the results they gave.\<close>

fun simulations :: "'e event list \<Rightarrow> ('e + result) list" where
  "simulations [] = []"
| "simulations (Simulate c r # es) = r # simulations es"
| "simulations (_ # es) = simulations es"

text \<open>The \<^verbatim>\<open>adjust()\<close> calls of a run, by their argument.\<close>

fun adjustments :: "'e event list \<Rightarrow> real list" where
  "adjustments [] = []"
| "adjustments (Adjust edge # es) = edge # adjustments es"
| "adjustments (_ # es) = adjustments es"

text \<open>
  A deterministic stub engine: the statistic is a function \<open>f\<close> of the actuator it is
  built with, the result dict holds that one key, there is no hidden world, and it never
  raises.
\<close>

definition stub_engine :: "(real \<Rightarrow> real) \<Rightarrow> Config \<Rightarrow> (unit, unit) Engine" where
  "stub_engine f c = (\<lambda>w. (Inr [''house_edge'' \<mapsto> f (bust_multiplier c)], w))"


subsection \<open>Vocabulary of the specification\<close>

text \<open>
  The static inputs of the parameter state: every field of the configuration but the
  actuator.
\<close>

definition static_inputs :: "Config \<Rightarrow> int \<times> int \<times> int \<times> real \<times> (string \<rightharpoonup> real)" where
  "static_inputs c = (players c, ante c, rounds c, target_edge c, tube_initial c)"

text \<open>
  A caller that, before each call \<open>adjust(edge)\<close>, writes a new value \<open>t\<close> to the
  \<open>target_edge\<close> field of the shared configuration object.
\<close>

fun session :: "('w, 'e) AutoBalancer \<Rightarrow> (real \<times> real) list \<Rightarrow> ('w, 'e) AutoBalancer" where
  "session self [] = self"
| "session self ((t, edge) # rest) =
     session (adjusted (self\<lparr>config := (config self)\<lparr>target_edge := t\<rparr>\<rparr>) edge) rest"

text \<open>
  An engine whose statistic never enters the band: whatever configuration it is built from
  and whatever the world, \<open>simulate()\<close> returns a dict whose \<open>house_edge\<close> lies outside
  \<open>[min_edge, max_edge]\<close>.
\<close>

definition never_in_band :: "('w, 'e) AutoBalancer \<Rightarrow> bool" where
  "never_in_band self \<longleftrightarrow>
     (\<forall>c w. \<exists>r w' x. engine_class self c w = (Inr r, w') \<and> r ''house_edge'' = Some x \<and>
        \<not> (min_edge self \<le> x \<and> x \<le> max_edge self))"

text \<open>An engine that always returns a dict with a \<open>house_edge\<close>.\<close>

definition always_reports :: "('w, 'e) AutoBalancer \<Rightarrow> bool" where
  "always_reports self \<longleftrightarrow>
     (\<forall>c w. \<exists>r w' x. engine_class self c w = (Inr r, w') \<and> r ''house_edge'' = Some x)"

text \<open>A statistic that is a strictly decreasing function of the actuator.\<close>

definition strictly_decreasing :: "(real \<Rightarrow> real) \<Rightarrow> bool" where
  "strictly_decreasing f \<longleftrightarrow> (\<forall>a b. a < b \<longrightarrow> f b < f a)"

text \<open>
  The measured statistic of one \<open>simulate()\<close> call: all the balancer reads of what the
  engine gave back. The observations of a run are the statistics of its calls, in order.
\<close>

definition statistic :: "'e + result \<Rightarrow> 'e + real option" where
  "statistic s = (case s of Inl e \<Rightarrow> Inl e | Inr r \<Rightarrow> Inr (r ''house_edge''))"

definition observations :: "'e event list \<Rightarrow> ('e + real option) list" where
  "observations es = map statistic (simulations es)"

text \<open>
  Two runs are fed the same observations when, as long as both are running, they measure
  the same statistics: the observations of one are an initial segment of the other's.
\<close>

definition fed_alike :: "'a list \<Rightarrow> 'a list \<Rightarrow> bool" where
  "fed_alike xs ys \<longleftrightarrow> prefix xs ys \<or> prefix ys xs"

text \<open>
  An event as the controller sees it: of a result dict only the key \<open>house_edge\<close>.
\<close>

fun control_view :: "'e event \<Rightarrow> 'e event" where
  "control_view (Simulate c s) =
     Simulate c (case s of Inl e \<Rightarrow> Inl e | Inr r \<Rightarrow> Inr (r |` {''house_edge''}))"
| "control_view e = e"

text \<open>The actuator values a run hands to the engine, one per \<open>simulate()\<close> call.\<close>

fun actuators :: "'e event list \<Rightarrow> real list" where
  "actuators [] = []"
| "actuators (Simulate c s # es) = bust_multiplier c # actuators es"
| "actuators (_ # es) = actuators es"

text \<open>The measured statistic of the value a run returns.\<close>

definition returned_statistic :: "'e error + result \<Rightarrow> 'e error + real option" where
  "returned_statistic v = (case v of Inl e \<Rightarrow> Inl e | Inr r \<Rightarrow> Inr (r ''house_edge''))"

subsection \<open>Stub engines and configurations used as concrete inputs\<close>

definition wide_Config :: Config where
  "wide_Config = default_Config\<lparr>bust_multiplier := 5\<rparr>"

definition identity_stub :: "Config \<Rightarrow> (unit, unit) Engine" where
  "identity_stub = stub_engine (\<lambda>a. a)"

definition easy_stub :: "Config \<Rightarrow> (unit, unit) Engine" where
  "easy_stub = stub_engine (\<lambda>a. 0.05 * a)"

definition far_stub :: "Config \<Rightarrow> (unit, unit) Engine" where
  "far_stub = stub_engine (\<lambda>a. 0.2)"

definition low_edge_stub :: "Config \<Rightarrow> (unit, unit) Engine" where
  "low_edge_stub = stub_engine (\<lambda>a. 0.03)"

definition high_edge_stub :: "Config \<Rightarrow> (unit, unit) Engine" where
  "high_edge_stub = stub_engine (\<lambda>a. 0.07)"

definition linear_statistic :: "real \<Rightarrow> real" where
  "linear_statistic a = 2.05 - a"

definition linear_stub :: "Config \<Rightarrow> (unit, unit) Engine" where
  "linear_stub = stub_engine linear_statistic"

text \<open>A stub whose result dict has a second key, which the balancer never reads.\<close>

definition tagged_stub :: "real \<Rightarrow> Config \<Rightarrow> (unit, unit) Engine" where
  "tagged_stub tag c = (\<lambda>w. (Inr [''house_edge'' \<mapsto> 0.05, ''hands'' \<mapsto> tag], w))"

section \<open>Properties of adjust\<close>

lemma actuator_adjusted:
  "actuator (adjusted self edge) =
     clamp 0.5 3.0 (actuator self + learning_rate self * (target self - edge))"
  by (simp add: adjusted_def adjust_def actuator_def clamp_def set_bust_multiplier_def Let_def)

lemma adjusted_frame:
  "adjusted self edge = set_bust_multiplier (actuator (adjusted self edge)) self"
  by (simp add: adjusted_def adjust_def actuator_def set_bust_multiplier_def Let_def)

text \<open>
  Claim C1. Immediately after any call \<open>adjust(edge)\<close> returns, whatever the state before
  it (so after every call of every sequence of calls) and however large the gap,
  the configuration's \<open>bust_multiplier\<close> lies within \<open>[0.5, 3.0]\<close>.
\<close>

theorem adjust_clamp_invariant:
  "0.5 \<le> bust_multiplier (config (snd (adjust self edge))) \<and>
   bust_multiplier (config (snd (adjust self edge))) \<le> 3.0 \<and>
   0.5 \<le> bust_multiplier (config (adjust_all (snd (adjust self edge)) edges)) \<and>
   bust_multiplier (config (adjust_all (snd (adjust self edge)) edges)) \<le> 3.0"
proof -
  have one: "0.5 \<le> actuator (adjusted s e) \<and> actuator (adjusted s e) \<le> 3.0"
    for s :: "('a, 'b) AutoBalancer" and e
    by (simp add: actuator_adjusted clamp_def)
  have all: "0.5 \<le> actuator s \<and> actuator s \<le> 3.0 \<Longrightarrow>
        0.5 \<le> actuator (adjust_all s es) \<and> actuator (adjust_all s es) \<le> 3.0"
    for s :: "('a, 'b) AutoBalancer" and es
  proof (induction es arbitrary: s)
    case Nil
    then show ?case by simp
  next
    case (Cons e es)
    show ?case using Cons.IH [OF one [of s e]] by simp
  qed
  from one [of self edge] all [OF one [of self edge], of edges]
  show ?thesis by (simp add: actuator_def adjusted_def)
qed

lemma adjust_eq:
  "adjust self edge =
     ((), set_bust_multiplier
            (clamp 0.5 3.0 (actuator self + learning_rate self * (target self - edge))) self)"
  by (simp add: adjust_def actuator_def clamp_def set_bust_multiplier_def Let_def)

lemma adjusted_fields [simp]:
  "engine_class (adjusted self edge) = engine_class self"
  "min_edge (adjusted self edge) = min_edge self"
  "max_edge (adjusted self edge) = max_edge self"
  "target (adjusted self edge) = target self"
  "learning_rate (adjusted self edge) = learning_rate self"
  by (simp_all add: adjusted_def adjust_eq set_bust_multiplier_def)

text \<open>
  Claim C2. For a balancer as its constructor built it (from \<open>config0\<close>) and any state
  \<open>c\<close> of its configuration object, \<open>adjust(m)\<close> computes the error as the target
  statistic minus \<open>m\<close>, replaces the actuator by the clamp into \<open>[0.5, 3.0]\<close> of the old
  actuator plus \<open>0.8\<close> times the error, changes nothing else of the object, and returns
  no value (the unit).
\<close>

theorem adjust_computes:
  "adjust ((init ec config0)\<lparr>config := c\<rparr>) m =
     ((), (init ec config0)
            \<lparr>config := c\<lparr>bust_multiplier :=
                 clamp 0.5 3.0 (bust_multiplier c + 0.8 * (target_edge config0 - m))\<rparr>\<rparr>)"
  by (simp add: adjust_eq init_def set_bust_multiplier_def actuator_def)

text \<open>
  Claim C6, as stated: for every state of the configuration, \<open>adjust\<close> at the target
  statistic leaves the actuator unchanged. It fails for an actuator outside the clamp
  range: a configuration built with \<open>bust_multiplier = 5\<close> is clamped to \<open>3\<close>.
\<close>

theorem adjust_at_target_counterexample:
  "bust_multiplier (config (snd (adjust (init identity_stub wide_Config)
      (target (init identity_stub wide_Config))))) = 3 \<and>
   bust_multiplier (config (init identity_stub wide_Config)) = 5"
  by (simp add: adjust_eq init_def set_bust_multiplier_def actuator_def clamp_def
      wide_Config_def default_Config_def)

text \<open>
  Claim C6, amended. When the actuator already lies within \<open>[0.5, 3.0]\<close>, \<open>adjust\<close> at
  the target statistic (error \<open>0\<close>) leaves the actuator, and the whole object, unchanged.
\<close>

theorem adjust_at_target_unchanged:
  assumes "0.5 \<le> bust_multiplier (config self)" and "bust_multiplier (config self) \<le> 3.0"
    and "m = target self"
  shows "bust_multiplier (config (snd (adjust self m))) = bust_multiplier (config self) \<and>
         adjust self m = ((), self)"
  using assms
  by (simp add: adjust_eq set_bust_multiplier_def actuator_def clamp_def)

theorem adjust_at_target_unchanged_witness:
  "0.5 \<le> bust_multiplier (config (init identity_stub default_Config)) \<and>
   bust_multiplier (config (init identity_stub default_Config)) \<le> 3.0 \<and>
   bust_multiplier (config (snd (adjust (init identity_stub default_Config) 0.05))) = 1 \<and>
   adjust (init identity_stub default_Config) 0.05 = ((), init identity_stub default_Config)"
proof -
  have lo: "0.5 \<le> bust_multiplier (config (init identity_stub default_Config))"
    by (simp add: init_def default_Config_def)
  have hi: "bust_multiplier (config (init identity_stub default_Config)) \<le> 3.0"
    by (simp add: init_def default_Config_def)
  have tg: "0.05 = target (init identity_stub default_Config)"
    by (simp add: init_def default_Config_def)
  have one: "bust_multiplier (config (init identity_stub default_Config)) = 1"
    by (simp add: init_def default_Config_def)
  from adjust_at_target_unchanged [OF lo hi tg] lo hi one show ?thesis by simp
qed

section \<open>Properties of the control loop\<close>

lemma static_inputs_adjusted [simp]:
  "static_inputs (config (adjusted self edge)) = static_inputs (config self)"
  by (simp add: adjusted_def adjust_eq set_bust_multiplier_def static_inputs_def)

lemma static_inputs_adjust_all:
  "static_inputs (config (adjust_all self edges)) = static_inputs (config self)"
  by (induction edges arbitrary: self) simp_all

lemma balancer_emit [simp]: "balancer (emit es out) = balancer out"
  and returned_emit [simp]: "returned (emit es out) = returned out"
  and world_emit [simp]: "world (emit es out) = world out"
  and trace_emit [simp]: "trace (emit es out) = es @ trace out"
  by (simp_all add: emit_def)

lemma snd_adjust_fields [simp]:
  "engine_class (snd (adjust self edge)) = engine_class self"
  "min_edge (snd (adjust self edge)) = min_edge self"
  "max_edge (snd (adjust self edge)) = max_edge self"
  "target (snd (adjust self edge)) = target self"
  "learning_rate (snd (adjust self edge)) = learning_rate self"
  by (simp_all add: adjust_eq set_bust_multiplier_def)

lemma run_loop_exhausted:
  "\<not> i < n \<Longrightarrow> run_loop i n res self w =
     (case res of
        None \<Rightarrow> \<lparr>returned = Inl UnboundLocalError, balancer = self, world = w, trace = []\<rparr>
      | Some r \<Rightarrow> \<lparr>returned = Inr r, balancer = self, world = w, trace = []\<rparr>)"
  by (simp add: run_loop.simps)

lemma run_loop_not_started: "\<not> i < n \<Longrightarrow> trace (run_loop i n res self w) = []"
  by (simp add: run_loop_exhausted split: option.splits)

lemma run_loop_converged:
  "i < n \<Longrightarrow> engine_class self (config self) w = (Inr r, w') \<Longrightarrow>
   r ''house_edge'' = Some x \<Longrightarrow> min_edge self \<le> x \<Longrightarrow> x \<le> max_edge self \<Longrightarrow>
   run_loop i n res self w =
     \<lparr>returned = Inr r, balancer = self, world = w',
      trace = [Simulate (config self) (Inr r), Print_iteration i x, Print_stabilized]\<rparr>"
  by (simp add: run_loop.simps)

lemma run_loop_continue:
  "i < n \<Longrightarrow> engine_class self (config self) w = (Inr r, w') \<Longrightarrow>
   r ''house_edge'' = Some x \<Longrightarrow> \<not> (min_edge self \<le> x \<and> x \<le> max_edge self) \<Longrightarrow>
   run_loop i n res self w =
     emit [Simulate (config self) (Inr r), Print_iteration i x, Adjust x]
       (run_loop (i + 1) n (Some r) (snd (adjust self x)) w')"
  by (auto simp: run_loop.simps [of i])

lemma run_loop_fault:
  "i < n \<Longrightarrow> engine_class self (config self) w = (Inl e, w') \<Longrightarrow>
   run_loop i n res self w =
     \<lparr>returned = Inl (EngineFault e), balancer = self, world = w',
      trace = [Simulate (config self) (Inl e)]\<rparr>"
  by (simp add: run_loop.simps)

lemma run_loop_key_error:
  "i < n \<Longrightarrow> engine_class self (config self) w = (Inr r, w') \<Longrightarrow>
   r ''house_edge'' = None \<Longrightarrow>
   run_loop i n res self w =
     \<lparr>returned = Inl KeyError, balancer = self, world = w',
      trace = [Simulate (config self) (Inr r)]\<rparr>"
  by (simp add: run_loop.simps)

lemma static_inputs_run_loop:
  "static_inputs (config (balancer (run_loop i n res self w))) = static_inputs (config self)"
proof (induction i n res self w rule: run_loop.induct)
  case (1 i n res self w)
  show ?case
    using "1.IH"
    by (subst run_loop.simps)
       (auto split: prod.splits sum.splits option.splits simp: adjusted_def [symmetric])
qed

lemma never_in_band_adjust [simp]:
  "never_in_band (snd (adjust self edge)) = never_in_band self"
  by (simp add: never_in_band_def)

lemma run_loop_never_in_band:
  assumes "never_in_band self" and "i < n"
  shows "\<exists>r. returned (run_loop i n res self w) = Inr r \<and>
             last (simulations (trace (run_loop i n res self w))) = Inr r \<and>
             length (simulations (trace (run_loop i n res self w))) = nat (n - i) \<and>
             length (adjustments (trace (run_loop i n res self w))) = nat (n - i)"
  using assms
proof (induction i n res self w rule: run_loop.induct)
  case (1 i n res self w)
  from \<open>never_in_band self\<close> obtain r w' x where
    eng: "engine_class self (config self) w = (Inr r, w')" and
    he: "r ''house_edge'' = Some x" and
    out: "\<not> (min_edge self \<le> x \<and> x \<le> max_edge self)"
    unfolding never_in_band_def by blast
  let ?rest = "run_loop (i + 1) n (Some r) (snd (adjust self x)) w'"
  have step: "run_loop i n res self w =
      emit [Simulate (config self) (Inr r), Print_iteration i x, Adjust x] ?rest"
    using \<open>i < n\<close> eng he out by (rule run_loop_continue)
  show ?case
  proof (cases "i + 1 < n")
    case True
    have nb: "never_in_band (snd (adjust self x))"
      using \<open>never_in_band self\<close> by simp
    from "1.IH" [OF \<open>i < n\<close> eng [symmetric] refl he out nb True]
    obtain r' where r': "returned ?rest = Inr r'"
      "last (simulations (trace ?rest)) = Inr r'"
      "length (simulations (trace ?rest)) = nat (n - (i + 1))"
      "length (adjustments (trace ?rest)) = nat (n - (i + 1))"
      by auto
    from True r'(3) have "simulations (trace ?rest) \<noteq> []" by auto
    with r' True show ?thesis
      by (simp add: step)
  next
    case False
    then have rest: "?rest =
        \<lparr>returned = Inr r, balancer = snd (adjust self x), world = w', trace = []\<rparr>"
      by (simp add: run_loop_exhausted)
    from False \<open>i < n\<close> have "nat (n - i) = Suc 0" by simp
    then show ?thesis
      by (simp add: step rest)
  qed
qed

lemma run_loop_stops_in_band:
  assumes "trace (run_loop i n res self w) = pre @ Simulate c (Inr r) # post"
    and "r ''house_edge'' = Some x" and "min_edge self \<le> x" and "x \<le> max_edge self"
  shows "post = [Print_iteration (i + int (length (simulations pre))) x, Print_stabilized] \<and>
         returned (run_loop i n res self w) = Inr r \<and>
         config (balancer (run_loop i n res self w)) = c"
  using assms
proof (induction i n res self w arbitrary: pre rule: run_loop.induct)
  case (1 i n res self w)
  note tr = \<open>trace (run_loop i n res self w) = pre @ Simulate c (Inr r) # post\<close>
  have lt: "i < n"
    using tr run_loop_not_started [of i n res self w] by auto
  obtain s w' where eng: "engine_class self (config self) w = (s, w')"
    by (cases "engine_class self (config self) w")
  show ?case
  proof (cases s)
    case (Inl e)
    with tr lt eng show ?thesis
      by (auto simp: run_loop_fault Cons_eq_append_conv)
  next
    case (Inr r1)
    note eng1 = eng [unfolded Inr]
    show ?thesis
    proof (cases "r1 ''house_edge''")
      case None
      with tr lt eng1 "1.prems" show ?thesis
        by (auto simp: run_loop_key_error Cons_eq_append_conv)
    next
      case (Some x1)
      show ?thesis
      proof (cases "min_edge self \<le> x1 \<and> x1 \<le> max_edge self")
        case True
        then have "run_loop i n res self w =
            \<lparr>returned = Inr r1, balancer = self, world = w',
             trace = [Simulate (config self) (Inr r1), Print_iteration i x1, Print_stabilized]\<rparr>"
          using lt eng1 Some by (simp add: run_loop_converged)
        with tr "1.prems" Some show ?thesis
          by (auto simp: Cons_eq_append_conv)
      next
        case False
        let ?rest = "run_loop (i + 1) n (Some r1) (snd (adjust self x1)) w'"
        have step: "run_loop i n res self w =
            emit [Simulate (config self) (Inr r1), Print_iteration i x1, Adjust x1] ?rest"
          using lt eng1 Some False by (rule run_loop_continue)
        from tr step have "Simulate (config self) (Inr r1) # Print_iteration i x1 # Adjust x1 #
            trace ?rest = pre @ Simulate c (Inr r) # post"
          by simp
        moreover have "r \<noteq> r1"
          using False Some "1.prems" by auto
        ultimately obtain pre' where pre: "pre = Simulate (config self) (Inr r1) #
            Print_iteration i x1 # Adjust x1 # pre'"
          and tr': "trace ?rest = pre' @ Simulate c (Inr r) # post"
          by (auto simp: Cons_eq_append_conv)
        from "1.IH" [OF lt eng1 [symmetric] refl Some False, of pre'] tr' "1.prems"
        have "post = [Print_iteration (i + 1 + int (length (simulations pre'))) x, Print_stabilized] \<and>
              returned ?rest = Inr r \<and> config (balancer ?rest) = c"
          by simp
        then show ?thesis
          by (simp add: step pre)
      qed
    qed
  qed
qed

lemma always_reports_adjust [simp]:
  "always_reports (snd (adjust self edge)) = always_reports self"
  by (simp add: always_reports_def)

lemma run_loop_bounded:
  assumes "always_reports self" and "i < n"
  shows "\<exists>r x. returned (run_loop i n res self w) = Inr r \<and> r ''house_edge'' = Some x \<and>
           last (simulations (trace (run_loop i n res self w))) = Inr r \<and>
           1 \<le> length (simulations (trace (run_loop i n res self w))) \<and>
           length (simulations (trace (run_loop i n res self w))) \<le> nat (n - i) \<and>
           (min_edge self \<le> x \<and> x \<le> max_edge self \<or>
            length (simulations (trace (run_loop i n res self w))) = nat (n - i))"
  using assms
proof (induction i n res self w rule: run_loop.induct)
  case (1 i n res self w)
  from \<open>always_reports self\<close> obtain r w' x where
    eng: "engine_class self (config self) w = (Inr r, w')" and
    he: "r ''house_edge'' = Some x"
    unfolding always_reports_def by blast
  show ?case
  proof (cases "min_edge self \<le> x \<and> x \<le> max_edge self")
    case True
    with \<open>i < n\<close> eng he show ?thesis
      by (simp add: run_loop_converged)
  next
    case out: False
    let ?rest = "run_loop (i + 1) n (Some r) (snd (adjust self x)) w'"
    have step: "run_loop i n res self w =
        emit [Simulate (config self) (Inr r), Print_iteration i x, Adjust x] ?rest"
      using \<open>i < n\<close> eng he out by (rule run_loop_continue)
    show ?thesis
    proof (cases "i + 1 < n")
      case True
      have ar: "always_reports (snd (adjust self x))"
        using \<open>always_reports self\<close> by simp
      from "1.IH" [OF \<open>i < n\<close> eng [symmetric] refl he out ar True]
      obtain r' x' where r': "returned ?rest = Inr r'" "r' ''house_edge'' = Some x'"
        "last (simulations (trace ?rest)) = Inr r'"
        "1 \<le> length (simulations (trace ?rest))"
        "length (simulations (trace ?rest)) \<le> nat (n - (i + 1))"
        "min_edge self \<le> x' \<and> x' \<le> max_edge self \<or>
           length (simulations (trace ?rest)) = nat (n - (i + 1))"
        by auto
      from r'(4) have "simulations (trace ?rest) \<noteq> []" by auto
      with r' True show ?thesis
        by (auto simp: step)
    next
      case False
      then have rest: "?rest =
          \<lparr>returned = Inr r, balancer = snd (adjust self x), world = w', trace = []\<rparr>"
        by (simp add: run_loop_exhausted)
      from False \<open>i < n\<close> have "nat (n - i) = Suc 0" by simp
      then show ?thesis
        by (simp add: step rest he)
    qed
  qed
qed

lemma actuator_adjust_all_cong:
  "actuator s1 = actuator s2 \<Longrightarrow> target s1 = target s2 \<Longrightarrow>
   learning_rate s1 = learning_rate s2 \<Longrightarrow>
   actuator (adjust_all s1 es) = actuator (adjust_all s2 es)"
  by (induction es arbitrary: s1 s2) (simp_all add: actuator_adjusted)

lemma actuator_session:
  "actuator (session self tes) = actuator (adjust_all self (map snd tes))"
proof (induction self tes rule: session.induct)
  case (1 self)
  then show ?case by simp
next
  case (2 self t edge rest)
  let ?s = "self\<lparr>config := (config self)\<lparr>target_edge := t\<rparr>\<rparr>"
  have "actuator (adjusted ?s edge) = actuator (adjusted self edge)"
    by (simp add: actuator_adjusted) (simp add: actuator_def)
  then have "actuator (adjust_all (adjusted ?s edge) (map snd rest)) =
             actuator (adjust_all (adjusted self edge) (map snd rest))"
    by (rule actuator_adjust_all_cong) simp_all
  with "2.IH" show ?case by simp
qed

lemma session_fields [simp]:
  "target (session self tes) = target self"
  "learning_rate (session self tes) = learning_rate self"
  by (induction self tes rule: session.induct) simp_all

lemma fed_alike_Cons [simp]: "fed_alike (a # xs) (b # ys) \<longleftrightarrow> a = b \<and> fed_alike xs ys"
  by (auto simp: fed_alike_def)

lemma observations_simps [simp]:
  "observations [] = []"
  "observations (Simulate c s # es) = statistic s # observations es"
  "observations (Print_iteration i x # es) = observations es"
  "observations (Print_stabilized # es) = observations es"
  "observations (Adjust x # es) = observations es"
  by (simp_all add: observations_def)

lemma restrict_house_edge:
  "r1 ''house_edge'' = r2 ''house_edge'' \<Longrightarrow> r1 |` {''house_edge''} = r2 |` {''house_edge''}"
  by (rule ext) (simp add: restrict_map_def)

lemma config_adjust_cong:
  "config s1 = config s2 \<Longrightarrow> target s1 = target s2 \<Longrightarrow> learning_rate s1 = learning_rate s2 \<Longrightarrow>
   config (snd (adjust s1 edge)) = config (snd (adjust s2 edge))"
  by (simp add: adjust_eq set_bust_multiplier_def actuator_def)

lemma trace_run_loop_head:
  assumes "i < n" and "engine_class self (config self) w = (a, w')"
  shows "\<exists>t. trace (run_loop i n res self w) = Simulate (config self) a # t"
proof (cases a)
  case (Inl e)
  with assms show ?thesis by (simp add: run_loop_fault)
next
  case (Inr r)
  show ?thesis
  proof (cases "r ''house_edge''")
    case None
    with assms Inr show ?thesis by (simp add: run_loop_key_error)
  next
    case (Some x)
    show ?thesis
    proof (cases "min_edge self \<le> x \<and> x \<le> max_edge self")
      case True
      with assms Inr Some show ?thesis by (simp add: run_loop_converged)
    next
      case False
      with assms Inr Some show ?thesis by (simp add: run_loop_continue)
    qed
  qed
qed

lemma run_loop_deterministic:
  fixes s1 :: "('w1, 'e) AutoBalancer" and s2 :: "('w2, 'e) AutoBalancer"
  assumes "config s1 = config s2" and "min_edge s1 = min_edge s2"
    and "max_edge s1 = max_edge s2" and "target s1 = target s2"
    and "learning_rate s1 = learning_rate s2"
    and "map_option (\<lambda>r. r ''house_edge'') res1 = map_option (\<lambda>r. r ''house_edge'') res2"
    and "fed_alike (observations (trace (run_loop i n res1 s1 w1)))
                   (observations (trace (run_loop i n res2 s2 w2)))"
  shows "map control_view (trace (run_loop i n res1 s1 w1)) =
           map control_view (trace (run_loop i n res2 s2 w2)) \<and>
         config (balancer (run_loop i n res1 s1 w1)) =
           config (balancer (run_loop i n res2 s2 w2)) \<and>
         returned_statistic (returned (run_loop i n res1 s1 w1)) =
           returned_statistic (returned (run_loop i n res2 s2 w2)) \<and>
         (res1 = res2 \<and> simulations (trace (run_loop i n res1 s1 w1)) =
             simulations (trace (run_loop i n res2 s2 w2)) \<longrightarrow>
          returned (run_loop i n res1 s1 w1) = returned (run_loop i n res2 s2 w2))"
  using assms
proof (induction i n res1 s1 w1 arbitrary: res2 s2 w2 rule: run_loop.induct)
  case (1 i n res1 s1 w1)
  note cf = \<open>config s1 = config s2\<close>
  note lo = \<open>min_edge s1 = min_edge s2\<close> and hi = \<open>max_edge s1 = max_edge s2\<close>
  note tg = \<open>target s1 = target s2\<close> and lr = \<open>learning_rate s1 = learning_rate s2\<close>
  show ?case
  proof (cases "i < n")
    case False
    with "1.prems"(1,6) show ?thesis
      by (cases res1; cases res2) (auto simp: run_loop_exhausted returned_statistic_def)
  next
    case lt: True
    obtain a1 w1' where eng1: "engine_class s1 (config s1) w1 = (a1, w1')"
      by (cases "engine_class s1 (config s1) w1")
    obtain a2 w2' where eng2: "engine_class s2 (config s2) w2 = (a2, w2')"
      by (cases "engine_class s2 (config s2) w2")
    from trace_run_loop_head [OF lt eng1, of res1] obtain t1
      where hd1: "trace (run_loop i n res1 s1 w1) = Simulate (config s1) a1 # t1" ..
    from trace_run_loop_head [OF lt eng2, of res2] obtain t2
      where hd2: "trace (run_loop i n res2 s2 w2) = Simulate (config s2) a2 # t2" ..
    from "1.prems"(7) have st: "statistic a1 = statistic a2"
      by (simp add: hd1 hd2)
    show ?thesis
    proof (cases a1)
      case (Inl e)
      with st have a2: "a2 = Inl e"
        by (auto simp: statistic_def split: sum.splits)
      have o1: "run_loop i n res s1 w1 =
          \<lparr>returned = Inl (EngineFault e), balancer = s1, world = w1',
           trace = [Simulate (config s1) (Inl e)]\<rparr>" for res
        using lt eng1 [unfolded Inl] by (rule run_loop_fault)
      have o2: "run_loop i n res s2 w2 =
          \<lparr>returned = Inl (EngineFault e), balancer = s2, world = w2',
           trace = [Simulate (config s2) (Inl e)]\<rparr>" for res
        using lt eng2 [unfolded a2] by (rule run_loop_fault)
      show ?thesis
        by (simp add: o1 o2 cf)
    next
      case (Inr r1)
      with st obtain r2 where a2: "a2 = Inr r2" and he: "r1 ''house_edge'' = r2 ''house_edge''"
        by (auto simp: statistic_def split: sum.splits)
      note e1 = eng1 [unfolded Inr] and e2 = eng2 [unfolded a2]
      from he have rs: "r1 |` {''house_edge''} = r2 |` {''house_edge''}"
        by (rule restrict_house_edge)
      show ?thesis
      proof (cases "r1 ''house_edge''")
        case None
        with he have none2: "r2 ''house_edge'' = None" by simp
        have o1: "run_loop i n res s1 w1 =
            \<lparr>returned = Inl KeyError, balancer = s1, world = w1',
             trace = [Simulate (config s1) (Inr r1)]\<rparr>" for res
          using lt e1 None by (rule run_loop_key_error)
        have o2: "run_loop i n res s2 w2 =
            \<lparr>returned = Inl KeyError, balancer = s2, world = w2',
             trace = [Simulate (config s2) (Inr r2)]\<rparr>" for res
          using lt e2 none2 by (rule run_loop_key_error)
        show ?thesis
          by (simp add: o1 o2 cf rs)
      next
        case (Some x)
        with he have he2: "r2 ''house_edge'' = Some x" by simp
        show ?thesis
        proof (cases "min_edge s1 \<le> x \<and> x \<le> max_edge s1")
          case True
          then have in1: "min_edge s1 \<le> x" "x \<le> max_edge s1" by simp_all
          then have in2: "min_edge s2 \<le> x" "x \<le> max_edge s2" using lo hi by simp_all
          have o1: "run_loop i n res s1 w1 =
              \<lparr>returned = Inr r1, balancer = s1, world = w1',
               trace = [Simulate (config s1) (Inr r1), Print_iteration i x, Print_stabilized]\<rparr>" for res
            using lt e1 Some in1 by (rule run_loop_converged)
          have o2: "run_loop i n res s2 w2 =
              \<lparr>returned = Inr r2, balancer = s2, world = w2',
               trace = [Simulate (config s2) (Inr r2), Print_iteration i x, Print_stabilized]\<rparr>" for res
            using lt e2 he2 in2 by (rule run_loop_converged)
          show ?thesis
            by (simp add: o1 o2 cf rs returned_statistic_def he)
        next
          case False
          with lo hi have out2: "\<not> (min_edge s2 \<le> x \<and> x \<le> max_edge s2)" by simp
          let ?o1 = "run_loop (i + 1) n (Some r1) (snd (adjust s1 x)) w1'"
          let ?o2 = "run_loop (i + 1) n (Some r2) (snd (adjust s2 x)) w2'"
          have step1: "run_loop i n res s1 w1 =
              emit [Simulate (config s1) (Inr r1), Print_iteration i x, Adjust x] ?o1" for res
            using lt e1 Some False by (rule run_loop_continue)
          have step2: "run_loop i n res s2 w2 =
              emit [Simulate (config s2) (Inr r2), Print_iteration i x, Adjust x] ?o2" for res
            using lt e2 he2 out2 by (rule run_loop_continue)
          have fed: "fed_alike (observations (trace ?o1)) (observations (trace ?o2))"
            using "1.prems"(7) by (simp add: step1 step2)
          have cf': "config (snd (adjust s1 x)) = config (snd (adjust s2 x))"
            using cf tg lr by (rule config_adjust_cong)
          have lo': "min_edge (snd (adjust s1 x)) = min_edge (snd (adjust s2 x))"
            and hi': "max_edge (snd (adjust s1 x)) = max_edge (snd (adjust s2 x))"
            and tg': "target (snd (adjust s1 x)) = target (snd (adjust s2 x))"
            and lr': "learning_rate (snd (adjust s1 x)) = learning_rate (snd (adjust s2 x))"
            using lo hi tg lr by simp_all
          have res: "map_option (\<lambda>r. r ''house_edge'') (Some r1) =
                     map_option (\<lambda>r. r ''house_edge'') (Some r2)"
            using he by simp
          note ih = "1.IH" [OF lt e1 [symmetric] refl Some False cf' lo' hi' tg' lr' res fed]
          from ih have tr: "map control_view (trace ?o1) = map control_view (trace ?o2)"
            and cb: "config (balancer ?o1) = config (balancer ?o2)"
            and rt: "returned_statistic (returned ?o1) = returned_statistic (returned ?o2)"
            by simp_all
          from ih have eq: "returned ?o1 = returned ?o2"
            if "r1 = r2" "simulations (trace ?o1) = simulations (trace ?o2)"
            using that by simp
          have same_return: "returned (run_loop i n res1 s1 w1) = returned (run_loop i n res2 s2 w2)"
            if "simulations (trace (run_loop i n res1 s1 w1)) =
                simulations (trace (run_loop i n res2 s2 w2))"
          proof -
            from that have "r1 = r2" and "simulations (trace ?o1) = simulations (trace ?o2)"
              by (auto simp: step1 step2)
            then have "returned ?o1 = returned ?o2" by (rule eq)
            then show ?thesis by (simp add: step1 step2)
          qed
          have "map control_view (trace (run_loop i n res1 s1 w1)) =
                  map control_view (trace (run_loop i n res2 s2 w2)) \<and>
                config (balancer (run_loop i n res1 s1 w1)) =
                  config (balancer (run_loop i n res2 s2 w2)) \<and>
                returned_statistic (returned (run_loop i n res1 s1 w1)) =
                  returned_statistic (returned (run_loop i n res2 s2 w2))"
            by (simp add: step1 step2 cf rs tr cb rt)
          with same_return show ?thesis by blast
        qed
      qed
    qed
  qed
qed

lemma actuators_control_view: "actuators (map control_view es) = actuators es"
proof (induction es)
  case Nil
  then show ?case by simp
next
  case (Cons e es)
  then show ?case by (cases e) simp_all
qed

lemmas run_evaluation =
  run_def run_loop.simps init_def stub_engine_def default_Config_def adjust_def
  set_bust_multiplier_def emit_def Let_def

section \<open>The claims about the control loop\<close>

text \<open>
  Claim C3. For an engine whose statistic never enters \<open>[min_edge, max_edge]\<close> and
  \<open>max_iterations \<ge> 1\<close>, \<open>run(max_iterations)\<close> makes exactly \<open>max_iterations\<close> calls
  of \<open>simulate()\<close> (and as many of \<open>adjust\<close>), and returns normally the result dict of
  the last of these calls, not an error.
\<close>

theorem run_exhausts_budget:
  assumes "never_in_band self" and "1 \<le> max_iterations"
  shows "\<exists>r. returned (run self max_iterations w) = Inr r \<and>
             last (simulations (trace (run self max_iterations w))) = Inr r \<and>
             length (simulations (trace (run self max_iterations w))) = nat max_iterations \<and>
             length (adjustments (trace (run self max_iterations w))) = nat max_iterations"
proof -
  from assms(2) have "0 < max_iterations" by simp
  from run_loop_never_in_band [OF assms(1) this, of None w]
  show ?thesis by (simp add: run_def)
qed

theorem run_exhausts_budget_witness:
  "never_in_band (init far_stub default_Config) \<and> (1::int) \<le> 3 \<and>
   (\<exists>r. returned (run (init far_stub default_Config) 3 ()) = Inr r \<and>
        last (simulations (trace (run (init far_stub default_Config) 3 ()))) = Inr r \<and>
        length (simulations (trace (run (init far_stub default_Config) 3 ()))) = nat 3 \<and>
        length (adjustments (trace (run (init far_stub default_Config) 3 ()))) = nat 3) \<and>
   returned (run (init far_stub default_Config) 3 ()) = Inr [''house_edge'' \<mapsto> 0.2]"
proof -
  have nb: "never_in_band (init far_stub default_Config)"
    unfolding never_in_band_def
  proof (intro allI)
    fix c :: Config and w :: unit
    show "\<exists>r w' x. engine_class (init far_stub default_Config) c w = (Inr r, w') \<and>
            r ''house_edge'' = Some x \<and>
            \<not> (min_edge (init far_stub default_Config) \<le> x \<and>
               x \<le> max_edge (init far_stub default_Config))"
      by (rule exI [of _ "[''house_edge'' \<mapsto> 0.2]"], rule exI [of _ w], rule exI [of _ "0.2"])
         (simp add: init_def far_stub_def stub_engine_def)
  qed
  have le: "(1::int) \<le> 3" by simp
  have ret: "returned (run (init far_stub default_Config) 3 ()) = Inr [''house_edge'' \<mapsto> 0.2]"
    by (simp add: run_evaluation far_stub_def)
  from nb le ret run_exhausts_budget [OF nb le, of "()"] show ?thesis
    by (intro conjI)
qed

text \<open>
  Claim C4. The band test is inclusive at both ends. Whenever a \<open>simulate()\<close> call of a
  run measures a statistic \<open>x\<close> with \<open>min_edge \<le> x \<le> max_edge\<close> (equality included),
  the run stops there: after that call come only the two print lines, no further
  \<open>simulate()\<close> and no \<open>adjust()\<close>; the configuration stays the one that call was made
  with, and the dict of that call is returned.
\<close>

theorem run_stops_in_band:
  assumes "trace (run self max_iterations w) = pre @ Simulate c (Inr r) # post"
    and "r ''house_edge'' = Some x" and "min_edge self \<le> x" and "x \<le> max_edge self"
  shows "post = [Print_iteration (int (length (simulations pre))) x, Print_stabilized] \<and>
         simulations post = [] \<and> adjustments post = [] \<and>
         returned (run self max_iterations w) = Inr r \<and>
         config (balancer (run self max_iterations w)) = c"
proof -
  from run_loop_stops_in_band [OF assms(1) [unfolded run_def] assms(2-4)]
  show ?thesis by (simp add: run_def)
qed

theorem run_stops_in_band_witness:
  "trace (run (init low_edge_stub default_Config) 8 ()) =
     [] @ Simulate default_Config (Inr [''house_edge'' \<mapsto> 0.03]) #
       [Print_iteration 0 0.03, Print_stabilized] \<and>
   min_edge (init low_edge_stub default_Config) \<le> 0.03 \<and>
   returned (run (init low_edge_stub default_Config) 8 ()) = Inr [''house_edge'' \<mapsto> 0.03] \<and>
   config (balancer (run (init low_edge_stub default_Config) 8 ())) = default_Config \<and>
   trace (run (init high_edge_stub default_Config) 8 ()) =
     [] @ Simulate default_Config (Inr [''house_edge'' \<mapsto> 0.07]) #
       [Print_iteration 0 0.07, Print_stabilized] \<and>
   0.07 \<le> max_edge (init high_edge_stub default_Config) \<and>
   returned (run (init high_edge_stub default_Config) 8 ()) = Inr [''house_edge'' \<mapsto> 0.07] \<and>
   config (balancer (run (init high_edge_stub default_Config) 8 ())) = default_Config"
proof -
  let ?lo = "init low_edge_stub default_Config" and ?hi = "init high_edge_stub default_Config"
  have tr_lo: "trace (run ?lo 8 ()) =
      [] @ Simulate default_Config (Inr [''house_edge'' \<mapsto> 0.03]) #
        [Print_iteration 0 0.03, Print_stabilized]"
    by (simp add: run_evaluation low_edge_stub_def)
  have tr_hi: "trace (run ?hi 8 ()) =
      [] @ Simulate default_Config (Inr [''house_edge'' \<mapsto> 0.07]) #
        [Print_iteration 0 0.07, Print_stabilized]"
    by (simp add: run_evaluation high_edge_stub_def)
  have he_lo: "[''house_edge'' \<mapsto> 0.03::real] ''house_edge'' = Some 0.03" by simp
  have he_hi: "[''house_edge'' \<mapsto> 0.07::real] ''house_edge'' = Some 0.07" by simp
  have lo1: "min_edge ?lo \<le> 0.03" and lo2: "0.03 \<le> max_edge ?lo"
    by (simp_all add: init_def)
  have hi1: "min_edge ?hi \<le> 0.07" and hi2: "0.07 \<le> max_edge ?hi"
    by (simp_all add: init_def)
  note at_lo = run_stops_in_band [OF tr_lo he_lo lo1 lo2]
    and at_hi = run_stops_in_band [OF tr_hi he_hi hi1 hi2]
  from at_lo have r_lo: "returned (run ?lo 8 ()) = Inr [''house_edge'' \<mapsto> 0.03]"
    and c_lo: "config (balancer (run ?lo 8 ())) = default_Config"
    by blast+
  from at_hi have r_hi: "returned (run ?hi 8 ()) = Inr [''house_edge'' \<mapsto> 0.07]"
    and c_hi: "config (balancer (run ?hi 8 ())) = default_Config"
    by blast+
  from tr_lo lo1 r_lo c_lo tr_hi hi2 r_hi c_hi show ?thesis
    by (intro conjI)
qed

text \<open>
  Claim C5, as stated: with a deterministic stub engine whose statistic is a strictly
  decreasing function of the actuator, \<open>run\<close> converges within \<open>max_iterations\<close> whenever
  some actuator in \<open>[0.5, 3.0]\<close> gives a statistic inside the band. It fails: the
  statistic \<open>2.05 - a\<close> is strictly decreasing and lies in the band at \<open>a = 2\<close>, yet from
  the default configuration the eight iterations of the default budget end with the
  statistic \<open>1.55\<close>, outside the band. (A statistic above the target lowers the actuator,
  which raises a decreasing statistic further; the actuator sticks at \<open>0.5\<close>.)
\<close>

theorem run_decreasing_counterexample:
  "strictly_decreasing linear_statistic \<and>
   (0.5::real) \<le> 2 \<and> (2::real) \<le> 3.0 \<and>
   0.03 \<le> linear_statistic 2 \<and> linear_statistic 2 \<le> 0.07 \<and>
   returned (run (init linear_stub default_Config) 8 ()) = Inr [''house_edge'' \<mapsto> 1.55] \<and>
   \<not> ((0.03::real) \<le> 1.55 \<and> (1.55::real) \<le> 0.07) \<and>
   length (simulations (trace (run (init linear_stub default_Config) 8 ()))) = 8 \<and>
   bust_multiplier (config (balancer (run (init linear_stub default_Config) 8 ()))) = 0.5"
proof -
  have "strictly_decreasing linear_statistic"
    by (simp add: strictly_decreasing_def linear_statistic_def)
  moreover have "0.03 \<le> linear_statistic 2 \<and> linear_statistic 2 \<le> 0.07"
    by (simp add: linear_statistic_def)
  moreover have "returned (run (init linear_stub default_Config) 8 ()) =
      Inr [''house_edge'' \<mapsto> 1.55]"
    by (simp add: run_evaluation linear_stub_def linear_statistic_def)
  moreover have "length (simulations (trace (run (init linear_stub default_Config) 8 ()))) = 8"
    by (simp add: run_evaluation linear_stub_def linear_statistic_def)
  moreover have "bust_multiplier (config (balancer (run (init linear_stub default_Config) 8 ()))) = 0.5"
    by (simp add: run_evaluation linear_stub_def linear_statistic_def)
  ultimately show ?thesis by simp
qed

text \<open>
  Claim C5, amended. With a deterministic stub engine, whatever function of the actuator
  its statistic is, and \<open>max_iterations \<ge> 1\<close>, \<open>run\<close> terminates after at least one and at
  most \<open>max_iterations\<close> simulations and returns the dict of the last one; its statistic
  lies inside the band, or else exactly \<open>max_iterations\<close> simulations were made.
\<close>

theorem run_stub_bounded:
  assumes "1 \<le> max_iterations"
  shows "\<exists>r x. returned (run (init (stub_engine f) c) max_iterations ()) = Inr r \<and>
           r ''house_edge'' = Some x \<and>
           last (simulations (trace (run (init (stub_engine f) c) max_iterations ()))) = Inr r \<and>
           1 \<le> length (simulations (trace (run (init (stub_engine f) c) max_iterations ()))) \<and>
           length (simulations (trace (run (init (stub_engine f) c) max_iterations ())))
             \<le> nat max_iterations \<and>
           (0.03 \<le> x \<and> x \<le> 0.07 \<or>
            length (simulations (trace (run (init (stub_engine f) c) max_iterations ())))
              = nat max_iterations)"
proof -
  have ar: "always_reports (init (stub_engine f) c)"
    by (simp add: always_reports_def init_def stub_engine_def)
  have lo: "min_edge (init (stub_engine f) c) = 0.03"
    and hi: "max_edge (init (stub_engine f) c) = 0.07"
    by (simp_all add: init_def)
  from assms have lt: "0 < max_iterations" by simp
  let ?out = "run_loop 0 max_iterations None (init (stub_engine f) c) ()"
  from run_loop_bounded [OF ar lt, of None "()"] obtain r x where
    "returned ?out = Inr r" and "r ''house_edge'' = Some x" and
    "last (simulations (trace ?out)) = Inr r" and
    "1 \<le> length (simulations (trace ?out))" and
    "length (simulations (trace ?out)) \<le> nat (max_iterations - 0)" and
    "min_edge (init (stub_engine f) c) \<le> x \<and> x \<le> max_edge (init (stub_engine f) c) \<or>
     length (simulations (trace ?out)) = nat (max_iterations - 0)"
    by blast
  then show ?thesis
    unfolding run_def by (intro exI [of _ r] exI [of _ x]) (simp add: lo hi)
qed

theorem run_stub_bounded_witness:
  "(1::int) \<le> 8 \<and>
   (\<exists>r x. returned (run (init (stub_engine linear_statistic) default_Config) 8 ()) = Inr r \<and>
      r ''house_edge'' = Some x \<and>
      last (simulations (trace (run (init (stub_engine linear_statistic) default_Config) 8 ())))
        = Inr r \<and>
      1 \<le> length (simulations (trace (run (init (stub_engine linear_statistic) default_Config) 8 ()))) \<and>
      length (simulations (trace (run (init (stub_engine linear_statistic) default_Config) 8 ())))
        \<le> nat 8 \<and>
      (0.03 \<le> x \<and> x \<le> 0.07 \<or>
       length (simulations (trace (run (init (stub_engine linear_statistic) default_Config) 8 ())))
         = nat 8))"
proof -
  have le: "(1::int) \<le> 8" by simp
  from le run_stub_bounded [OF le, of linear_statistic default_Config]
  show ?thesis by (intro conjI)
qed

text \<open>
  Claim C7. The balancer writes the actuator and nothing else of the parameter state:
  after one \<open>adjust\<close>, after any sequence of \<open>adjust\<close> calls and after any \<open>run\<close>, the
  fields \<open>players\<close>, \<open>ante\<close>, \<open>rounds\<close>, \<open>target_edge\<close> and \<open>tube_initial\<close> of the
  configuration are what they were.
\<close>

theorem balancer_writes_only_actuator:
  "static_inputs (config (snd (adjust self edge))) = static_inputs (config self) \<and>
   static_inputs (config (adjust_all self edges)) = static_inputs (config self) \<and>
   static_inputs (config (balancer (run self max_iterations w))) = static_inputs (config self)"
proof -
  have "static_inputs (config (snd (adjust self edge))) = static_inputs (config self)"
    using static_inputs_adjusted [of self edge] by (simp add: adjusted_def)
  then show ?thesis
    by (simp add: static_inputs_adjust_all static_inputs_run_loop run_def)
qed

text \<open>
  Claim C8, as stated: two runs from equal configurations that measure the same sequence
  of statistics return the same value. It fails for the return value: the balancer hands
  back the engine's dict as it is, and two engines may report the same \<open>house_edge\<close> with
  other entries that differ.
\<close>

theorem run_return_counterexample:
  "observations (trace (run (init (tagged_stub 1) default_Config) 8 ())) =
     observations (trace (run (init (tagged_stub 2) default_Config) 8 ())) \<and>
   returned (run (init (tagged_stub 1) default_Config) 8 ()) =
     Inr [''house_edge'' \<mapsto> 0.05, ''hands'' \<mapsto> 1] \<and>
   returned (run (init (tagged_stub 2) default_Config) 8 ()) =
     Inr [''house_edge'' \<mapsto> 0.05, ''hands'' \<mapsto> 2] \<and>
   returned (run (init (tagged_stub 1) default_Config) 8 ()) \<noteq>
     returned (run (init (tagged_stub 2) default_Config) 8 ())"
proof -
  have r1: "returned (run (init (tagged_stub 1) default_Config) 8 ()) =
      Inr [''house_edge'' \<mapsto> 0.05, ''hands'' \<mapsto> 1]"
    by (simp add: run_evaluation tagged_stub_def)
  have r2: "returned (run (init (tagged_stub 2) default_Config) 8 ()) =
      Inr [''house_edge'' \<mapsto> 0.05, ''hands'' \<mapsto> 2]"
    by (simp add: run_evaluation tagged_stub_def)
  have ob: "observations (trace (run (init (tagged_stub 1) default_Config) 8 ())) =
      observations (trace (run (init (tagged_stub 2) default_Config) 8 ()))"
    by (simp add: run_evaluation tagged_stub_def statistic_def)
  have "[''house_edge'' \<mapsto> 0.05, ''hands'' \<mapsto> 1::real] ''hands'' \<noteq>
        [''house_edge'' \<mapsto> 0.05, ''hands'' \<mapsto> 2::real] ''hands''"
    by simp
  then have "[''house_edge'' \<mapsto> 0.05, ''hands'' \<mapsto> 1::real] \<noteq>
             [''house_edge'' \<mapsto> 0.05, ''hands'' \<mapsto> 2::real]"
    by metis
  with r1 r2 ob show ?thesis by simp
qed

text \<open>
  Claim C8, amended. The controller is deterministic in its observations. Two runs with
  the same \<open>max_iterations\<close>, of balancers built from equal configurations, with any two
  engines and worlds, that are fed the same measured statistics make the same calls in the
  same order with the same configurations (so the same actuator values), print the same
  lines, stop at the same point for the same reason, leave equal configurations, and
  return values with the same statistic; the returned dicts are equal when the dicts the
  engines gave were.
\<close>

theorem run_deterministic:
  fixes ec1 :: "Config \<Rightarrow> ('w1, 'e) Engine" and ec2 :: "Config \<Rightarrow> ('w2, 'e) Engine"
  assumes "fed_alike (observations (trace (run (init ec1 c) max_iterations w1)))
                     (observations (trace (run (init ec2 c) max_iterations w2)))"
  shows "map control_view (trace (run (init ec1 c) max_iterations w1)) =
           map control_view (trace (run (init ec2 c) max_iterations w2)) \<and>
         actuators (trace (run (init ec1 c) max_iterations w1)) =
           actuators (trace (run (init ec2 c) max_iterations w2)) \<and>
         config (balancer (run (init ec1 c) max_iterations w1)) =
           config (balancer (run (init ec2 c) max_iterations w2)) \<and>
         returned_statistic (returned (run (init ec1 c) max_iterations w1)) =
           returned_statistic (returned (run (init ec2 c) max_iterations w2)) \<and>
         (simulations (trace (run (init ec1 c) max_iterations w1)) =
            simulations (trace (run (init ec2 c) max_iterations w2)) \<longrightarrow>
          returned (run (init ec1 c) max_iterations w1) =
            returned (run (init ec2 c) max_iterations w2))"
proof -
  let ?o1 = "run_loop 0 max_iterations None (init ec1 c) w1"
  let ?o2 = "run_loop 0 max_iterations None (init ec2 c) w2"
  have cf: "config (init ec1 c) = config (init ec2 c)"
    and lo: "min_edge (init ec1 c) = min_edge (init ec2 c)"
    and hi: "max_edge (init ec1 c) = max_edge (init ec2 c)"
    and tg: "target (init ec1 c) = target (init ec2 c)"
    and lr: "learning_rate (init ec1 c) = learning_rate (init ec2 c)"
    by (simp_all add: init_def)
  have res: "map_option (\<lambda>r. r ''house_edge'') (None :: result option) =
             map_option (\<lambda>r. r ''house_edge'') (None :: result option)"
    by simp
  note det = run_loop_deterministic [OF cf lo hi tg lr res assms [unfolded run_def]]
  from det have tr: "map control_view (trace ?o1) = map control_view (trace ?o2)"
    by (rule conjunct1)
  from tr have "actuators (map control_view (trace ?o1)) =
                actuators (map control_view (trace ?o2))"
    by simp
  then have ac: "actuators (trace ?o1) = actuators (trace ?o2)"
    by (simp only: actuators_control_view)
  from det ac show ?thesis
    unfolding run_def by blast
qed

theorem run_deterministic_witness:
  "fed_alike (observations (trace (run (init (tagged_stub 1) default_Config) 8 ())))
             (observations (trace (run (init (tagged_stub 2) default_Config) 8 ()))) \<and>
   map control_view (trace (run (init (tagged_stub 1) default_Config) 8 ())) =
     map control_view (trace (run (init (tagged_stub 2) default_Config) 8 ())) \<and>
   actuators (trace (run (init (tagged_stub 1) default_Config) 8 ())) =
     actuators (trace (run (init (tagged_stub 2) default_Config) 8 ())) \<and>
   returned_statistic (returned (run (init (tagged_stub 1) default_Config) 8 ())) =
     returned_statistic (returned (run (init (tagged_stub 2) default_Config) 8 ()))"
proof -
  have fed: "fed_alike (observations (trace (run (init (tagged_stub 1) default_Config) 8 ())))
      (observations (trace (run (init (tagged_stub 2) default_Config) 8 ())))"
    by (simp add: run_evaluation tagged_stub_def statistic_def fed_alike_def)
  from fed run_deterministic [OF fed] show ?thesis by blast
qed

text \<open>
  Claim C9. \<open>run(0)\<close> returns no result dict: the loop body is skipped, no \<open>simulate()\<close>
  call is made, nothing is printed or adjusted, and the final \<open>return result\<close> reads an
  unbound local, so the call fails with \<open>UnboundLocalError\<close>. Whenever \<open>run\<close> does
  return a dict, \<open>max_iterations \<ge> 1\<close>.
\<close>

theorem run_zero_unbound:
  "returned (run self 0 w) = Inl UnboundLocalError \<and>
   trace (run self 0 w) = [] \<and> world (run self 0 w) = w \<and> balancer (run self 0 w) = self \<and>
   (\<forall>n r. returned (run self n w) = Inr r \<longrightarrow> 1 \<le> n)"
proof -
  have none: "returned (run self n w) \<noteq> Inr r" if "n < 1" for n r
    using that by (simp add: run_def run_loop_exhausted)
  have "1 \<le> n" if "returned (run self n w) = Inr r" for n r
    using that none [of n r] by arith
  then show ?thesis
    by (simp add: run_def run_loop_exhausted)
qed

theorem run_zero_unbound_witness:
  "returned (run (init easy_stub default_Config) 0 ()) = Inl UnboundLocalError \<and>
   trace (run (init easy_stub default_Config) 0 ()) = [] \<and>
   returned (run (init easy_stub default_Config) 1 ()) = Inr [''house_edge'' \<mapsto> 0.05] \<and>
   (1::int) \<le> 1"
proof -
  note zero = run_zero_unbound [of "init easy_stub default_Config" "()"]
  from zero have unbound: "returned (run (init easy_stub default_Config) 0 ()) =
      Inl UnboundLocalError"
    and silent: "trace (run (init easy_stub default_Config) 0 ()) = []"
    by blast+
  have one: "returned (run (init easy_stub default_Config) 1 ()) =
      Inr [''house_edge'' \<mapsto> 0.05]"
    by (simp add: run_evaluation easy_stub_def)
  from zero one have "(1::int) \<le> 1" by blast
  with unbound silent one show ?thesis by (intro conjI)
qed

text \<open>
  Claim C10. The constructor copies \<open>config.target_edge\<close> into \<open>self.target\<close>, and \<open>adjust\<close>
  reads only that copy. However the caller rewrites the \<open>target_edge\<close> field of the shared
  configuration afterwards, before any of the \<open>adjust\<close> calls, the balancer's target
  stays the value at construction, each error is computed from it, and the actuator
  takes the values it would have taken without those writes.
\<close>

theorem target_snapshot:
  "target (session (init ec c) tes) = target_edge c \<and>
   bust_multiplier (config (session (init ec c) tes)) =
     bust_multiplier (config (adjust_all (init ec c) (map snd tes))) \<and>
   bust_multiplier (config (snd (adjust ((init ec c)\<lparr>config := c\<lparr>target_edge := t\<rparr>\<rparr>) m))) =
     clamp 0.5 3.0 (bust_multiplier c + 0.8 * (target_edge c - m))"
  using actuator_session [of "init ec c" tes]
  by (simp add: actuator_def adjust_eq set_bust_multiplier_def) (simp add: init_def)

end
